theory Spec2Isabelle
  imports Complex_Main "HOL-Library.Sublist"
begin

section \<open>JavaScript values, errors and strings\<close>

text \<open>
  A thrown JavaScript error (or a rejected promise) is a value carrying the two fields the
  code reads: \<open>name\<close> and \<open>message\<close>.
\<close>

datatype js_error = JsError (err_name: string) (err_message: string)

definition TypeError :: js_error where
  "TypeError = JsError ''TypeError'' ''Cannot read properties of undefined''"

text \<open>
  Request bodies, query objects and response payloads are untyped. An object is an
  association list; the first binding of a key is the value of the property.
\<close>

datatype jsval =
    JUndefined
  | JNull
  | JBool bool
  | JNum int
  | JStr string
  | JArr "jsval list"
  | JObj "(string \<times> jsval) list"

fun truthy :: "jsval \<Rightarrow> bool" where
  "truthy JUndefined = False"
| "truthy JNull = False"
| "truthy (JBool b) = b"
| "truthy (JNum n) = (n \<noteq> 0)"
| "truthy (JStr s) = (s \<noteq> [])"
| "truthy (JArr xs) = True"
| "truthy (JObj kvs) = True"

text \<open>
  Property read \<open>v.k\<close>: a TypeError on \<open>undefined\<close> and \<open>null\<close>, the bound value on an
  object, \<open>undefined\<close> otherwise (the keys read by the code are never built-in ones).
\<close>

fun get_prop :: "jsval \<Rightarrow> string \<Rightarrow> js_error + jsval" where
  "get_prop JUndefined k = Inl TypeError"
| "get_prop JNull k = Inl TypeError"
| "get_prop (JObj kvs) k = Inr (case map_of kvs k of None \<Rightarrow> JUndefined | Some v \<Rightarrow> v)"
| "get_prop v k = Inr JUndefined"

definition bindE :: "js_error + 'a \<Rightarrow> ('a \<Rightarrow> js_error + 'b) \<Rightarrow> js_error + 'b" where
  "bindE m f = (case m of Inl e \<Rightarrow> Inl e | Inr v \<Rightarrow> f v)"

text \<open>\<open>String.prototype.includes\<close>: the argument occurs as a contiguous substring.\<close>

fun str_includes :: "string \<Rightarrow> string \<Rightarrow> bool" where
  "str_includes [] sub = (sub = [])"
| "str_includes (c # cs) sub = (prefix sub (c # cs) \<or> str_includes cs sub)"

text \<open>\<open>a || b\<close> on optional strings: \<open>undefined\<close>, \<open>null\<close> and the empty string are falsy.\<close>

definition js_or :: "string option \<Rightarrow> string option \<Rightarrow> string option" where
  "js_or a b = (case a of None \<Rightarrow> b | Some s \<Rightarrow> if s = [] then b else Some s)"

definition opt_str :: "string option \<Rightarrow> jsval" where
  "opt_str a = (case a of None \<Rightarrow> JUndefined | Some s \<Rightarrow> JStr s)"

section \<open>The audit entry (models/Audit.js)\<close>

datatype resource_type = RUser | RPatient | RDocument | RReport | RAuth | RSystem

datatype event_type =
    Create | Read | Update | Delete | Login | Logout | Failed_login | Password_change
  | Data_export | Data_import | File_upload | File_download | Report_generation
  | Access_denied | System_error

datatype severity_level = Low | Medium | High | Critical

datatype audit_status = Success | Failure | Warning

text \<open>
  The object handed to \<open>Audit.createEntry\<close>. A property the caller does not set is
  \<open>None\<close>.
\<close>

record auditData =
  userId :: "string option"
  sessionId :: "string option"
  ipAddress :: "string option"
  userAgent :: "string option"
  action :: string
  resource :: "string option"
  resourceId :: "string option"
  resourceType :: "resource_type option"
  eventType :: event_type
  severity :: severity_level
  status :: audit_status
  details :: "jsval option"
  phiAccessed :: "bool option"
  phiFields :: "string list option"
  purpose :: "string option"
  location :: "string option"
  entry_context :: "string option"
  duration :: "int option"
  errorMessage :: "jsval option"
  newValues :: "(string \<times> jsval) list option"

section \<open>The request-level classifier (middleware/audit.js)\<close>

record request =
  req_method :: string
  originalUrl :: string
  req_body :: jsval
  req_query :: jsval
  req_user_id :: "string option"
  sessionID :: "string option"
  req_ip :: "string option"
  remoteAddress :: "string option"
  hdr_authorization :: "string option"
  hdr_user_agent :: "string option"
  hdr_referer :: "string option"
  hdr_forwarded_for :: "string option"
  hdr_request_context :: "string option"

record response =
  statusCode :: int

definition skipAuditEndpoints :: "string list" where
  "skipAuditEndpoints = [''/api/health'', ''/api/auth/login'', ''/api/auth/refresh'', ''/favicon.ico'']"

definition determineEventType :: "string \<Rightarrow> string \<Rightarrow> event_type" where
  "determineEventType method url =
     (if str_includes url ''/auth/login'' then Login
      else if str_includes url ''/auth/logout'' then Logout
      else if str_includes url ''/auth/refresh'' then Login
      else if method = ''GET'' then Read
      else if method = ''POST'' then
        (if str_includes url ''/upload'' then File_upload
         else if str_includes url ''/export'' then Data_export
         else if str_includes url ''/report'' then Report_generation
         else Create)
      else if method = ''PUT'' \<or> method = ''PATCH'' then Update
      else if method = ''DELETE'' then Delete
      else Read)"

definition determineSeverity :: "string \<Rightarrow> string \<Rightarrow> int \<Rightarrow> severity_level" where
  "determineSeverity method url code =
     (if code = 401 \<or> code = 403 then High
      else if str_includes url ''/patients'' \<or> str_includes url ''/documents'' then High
      else if str_includes url ''/users'' \<or> str_includes url ''/auth'' then Medium
      else Low)"

definition phiEndpoints :: "string list" where
  "phiEndpoints = [''/patients'', ''/documents'', ''/reports'', ''/lab-results'']"

definition isPHIAccess :: "string \<Rightarrow> string \<Rightarrow> bool" where
  "isPHIAccess url method = list_ex (\<lambda>endpoint. str_includes url endpoint) phiEndpoints"

definition determineResourceType :: "string \<Rightarrow> resource_type" where
  "determineResourceType url =
     (if str_includes url ''/patients'' then RPatient
      else if str_includes url ''/documents'' then RDocument
      else if str_includes url ''/users'' then RUser
      else if str_includes url ''/reports'' then RReport
      else if str_includes url ''/auth'' then RAuth
      else RSystem)"

text \<open>
  \<open>extractResourceId\<close>: the first place where a slash is followed by a lower-case
  hexadecimal UUID (groups of 8, 4, 4, 4 and 12 digits); the UUID is the result.
\<close>

definition is_hex :: "char \<Rightarrow> bool" where
  "is_hex c = (c \<in> set ''abcdef0123456789'')"

fun hex_run :: "nat \<Rightarrow> string \<Rightarrow> string option" where
  "hex_run 0 s = Some s"
| "hex_run (Suc n) [] = None"
| "hex_run (Suc n) (c # cs) = (if is_hex c then hex_run n cs else None)"

fun hex_groups :: "nat list \<Rightarrow> string \<Rightarrow> bool" where
  "hex_groups [] s = True"
| "hex_groups [n] s = (hex_run n s \<noteq> None)"
| "hex_groups (n # ns) s =
     (case hex_run n s of
        None \<Rightarrow> False
      | Some [] \<Rightarrow> False
      | Some (c # cs) \<Rightarrow> c = CHR ''-'' \<and> hex_groups ns cs)"

fun extractResourceId :: "string \<Rightarrow> string option" where
  "extractResourceId [] = None"
| "extractResourceId (c # cs) =
     (if c = CHR ''/'' \<and> hex_groups [8, 4, 4, 4, 12] cs then Some (take 36 cs)
      else extractResourceId cs)"

text \<open>
  \<open>extractPHIFields\<close>. Every property read may throw; the reads are guarded by the
  truthiness of \<open>body\<close> and \<open>query\<close>, as in the source.
\<close>

definition truthy_prop :: "jsval \<Rightarrow> string \<Rightarrow> js_error + bool" where
  "truthy_prop v k = bindE (get_prop v k) (\<lambda>x. Inr (truthy x))"

definition push_if :: "js_error + bool \<Rightarrow> string \<Rightarrow> string list \<Rightarrow> js_error + string list" where
  "push_if c label acc = bindE c (\<lambda>b. Inr (if b then acc @ [label] else acc))"

definition body_phi :: "jsval \<Rightarrow> string list \<Rightarrow> js_error + string list" where
  "body_phi b f0 =
     bindE (push_if (bindE (truthy_prop b ''firstName'')
                       (\<lambda>x. if x then Inr True else truthy_prop b ''lastName'')) ''name'' f0) (\<lambda>f1.
     bindE (push_if (truthy_prop b ''dateOfBirth'') ''dateOfBirth'' f1) (\<lambda>f2.
     bindE (push_if (truthy_prop b ''ssn'') ''ssn'' f2) (\<lambda>f3.
     bindE (push_if (truthy_prop b ''phone'') ''phone'' f3) (\<lambda>f4.
     bindE (push_if (truthy_prop b ''email'') ''email'' f4) (\<lambda>f5.
     bindE (push_if (truthy_prop b ''address'') ''address'' f5) (\<lambda>f6.
     push_if (truthy_prop b ''medicalHistory'') ''medicalHistory'' f6))))))"

definition query_phi :: "jsval \<Rightarrow> string list \<Rightarrow> js_error + string list" where
  "query_phi q f0 =
     bindE (push_if (truthy_prop q ''name'') ''name'' f0) (\<lambda>f1.
     push_if (truthy_prop q ''dob'') ''dateOfBirth'' f1)"

definition extractPHIFields :: "jsval \<Rightarrow> jsval \<Rightarrow> js_error + string list option" where
  "extractPHIFields b q =
     bindE (if truthy b then body_phi b [] else Inr []) (\<lambda>f1.
     bindE (if truthy q then query_phi q f1 else Inr f1) (\<lambda>phi.
     Inr (if length phi > 0 then Some phi else None)))"

definition extractPurpose :: "string \<Rightarrow> string \<Rightarrow> string" where
  "extractPurpose url method =
     (if str_includes url ''/patients'' then ''patient_care''
      else if str_includes url ''/documents'' then ''medical_records''
      else if str_includes url ''/reports'' then ''healthcare_operations''
      else if str_includes url ''/auth'' then ''authentication''
      else ''general_operations'')"

text \<open>
  \<open>sanitizeRequestBody\<close>. The object spread \<open>{ ...body }\<close> copies the own enumerable
  properties: those of an object, the indexed elements of an array or a string, nothing for
  the other values.
\<close>

fun dec :: "nat \<Rightarrow> string" where
  "dec n = (if n < 10 then [char_of (48 + n)] else dec (n div 10) @ [char_of (48 + n mod 10)])"

fun spread :: "jsval \<Rightarrow> (string \<times> jsval) list" where
  "spread (JObj kvs) = kvs"
| "spread (JArr xs) = zip (map dec [0..<length xs]) xs"
| "spread (JStr s) = zip (map dec [0..<length s]) (map (\<lambda>c. JStr [c]) s)"
| "spread v = []"

definition sensitiveFields :: "string list" where
  "sensitiveFields = [''password'', ''ssn'', ''creditCard'', ''cvv'']"

fun set_first :: "string \<Rightarrow> jsval \<Rightarrow> (string \<times> jsval) list \<Rightarrow> (string \<times> jsval) list" where
  "set_first k v [] = [(k, v)]"
| "set_first k v (p # ps) = (if fst p = k then (k, v) # ps else p # set_first k v ps)"

definition redact :: "(string \<times> jsval) list \<Rightarrow> string \<Rightarrow> (string \<times> jsval) list" where
  "redact sanitized field =
     (if truthy (case map_of sanitized field of None \<Rightarrow> JUndefined | Some v \<Rightarrow> v)
      then set_first field (JStr ''[REDACTED]'') sanitized else sanitized)"

definition sanitizeRequestBody :: "jsval \<Rightarrow> (string \<times> jsval) list" where
  "sanitizeRequestBody b = foldl redact (spread b) sensitiveFields"

text \<open>
  The error message of a failed response (lines 82 to 89): the payload is parsed when it
  is a string, its \<open>message\<close> or \<open>error\<close> is taken, and whatever is thrown on the way is
  caught and replaced by the fixed text. \<open>JSON.parse\<close> is the parameter \<open>json_parse\<close>.
\<close>

definition response_errorMessage :: "(string \<Rightarrow> js_error + jsval) \<Rightarrow> jsval \<Rightarrow> jsval" where
  "response_errorMessage json_parse responseData =
     (case bindE (case responseData of JStr s \<Rightarrow> json_parse s | v \<Rightarrow> Inr v) (\<lambda>responseObj.
           bindE (get_prop responseObj ''message'') (\<lambda>m.
             if truthy m then Inr m
             else bindE (get_prop responseObj ''error'') (\<lambda>e.
               if truthy e then Inr e else Inr (JStr ''Request failed''))))
      of Inl e \<Rightarrow> JStr ''Request failed'' | Inr v \<Rightarrow> v)"

text \<open>
  The body of the \<open>try\<close> block of \<open>createAuditEntry\<close> after the exemption test and before
  the write (lines 39 to 94): either the draft handed to the store or the error thrown
  while it is built.
\<close>

definition createAuditEntry_draft ::
  "(string \<Rightarrow> js_error + jsval) \<Rightarrow> request \<Rightarrow> response \<Rightarrow> int \<Rightarrow> jsval \<Rightarrow> js_error + auditData" where
  "createAuditEntry_draft json_parse req res dur responseData =
     (let ev = determineEventType (req_method req) (originalUrl req);
          sev = determineSeverity (req_method req) (originalUrl req) (statusCode res);
          phi = isPHIAccess (originalUrl req) (req_method req);
          rtype = determineResourceType (originalUrl req);
          st = (if statusCode res \<ge> 400 then Failure else Success)
      in bindE (if phi then extractPHIFields (req_body req) (req_query req) else Inr None) (\<lambda>pf.
         Inr \<lparr> userId = js_or (req_user_id req) None,
               sessionId = sessionID req,
               ipAddress = js_or (req_ip req) (remoteAddress req),
               userAgent = hdr_user_agent req,
               action = req_method req @ '' '' @ originalUrl req,
               resource = Some (originalUrl req),
               resourceId = extractResourceId (originalUrl req),
               resourceType = Some rtype,
               eventType = ev,
               severity = sev,
               status = st,
               details = Some (JObj [(''method'', JStr (req_method req)),
                                     (''statusCode'', JNum (statusCode res)),
                                     (''duration'', JNum dur),
                                     (''userAgent'', opt_str (hdr_user_agent req)),
                                     (''referer'', opt_str (hdr_referer req))]),
               phiAccessed = Some phi,
               phiFields = pf,
               purpose = Some (extractPurpose (originalUrl req) (req_method req)),
               location = js_or (hdr_forwarded_for req) (req_ip req),
               entry_context = js_or (hdr_request_context req) (Some ''API Request''),
               duration = Some dur,
               errorMessage =
                 (if statusCode res \<ge> 400 then Some (response_errorMessage json_parse responseData)
                  else None),
               newValues =
                 (if req_method req \<in> set [''POST'', ''PUT'', ''PATCH''] \<and> truthy (req_body req)
                  then Some (sanitizeRequestBody (req_body req)) else None) \<rparr>))"

text \<open>
  \<open>createAuditEntry\<close>. The store's \<open>Audit.createEntry\<close> is the parameter \<open>persist\<close>: it
  either accepts the draft or rejects with an error. Whatever is thrown inside the \<open>try\<close>
  block ends in the \<open>catch\<close>, which only logs.
\<close>

datatype audit_outcome = Skipped | Persisted auditData | Logged js_error

definition createAuditEntry ::
  "(auditData \<Rightarrow> js_error option) \<Rightarrow> (string \<Rightarrow> js_error + jsval) \<Rightarrow>
     request \<Rightarrow> response \<Rightarrow> int \<Rightarrow> jsval \<Rightarrow> audit_outcome" where
  "createAuditEntry persist json_parse req res dur responseData =
     (if list_ex (\<lambda>endpoint. str_includes (originalUrl req) endpoint) skipAuditEndpoints
      then Skipped
      else (case createAuditEntry_draft json_parse req res dur responseData of
              Inl e \<Rightarrow> Logged e
            | Inr d \<Rightarrow> (case persist d of Some e \<Rightarrow> Logged e | None \<Rightarrow> Persisted d)))"

fun entries_written :: "audit_outcome \<Rightarrow> auditData list" where
  "entries_written (Persisted d) = [d]"
| "entries_written other = []"

text \<open>
  \<open>auditLogger\<close> replaces \<open>res.send\<close>: the replacement starts \<open>createAuditEntry\<close> with the
  time elapsed since the request arrived and then hands the payload to the original
  \<open>send\<close>. What the client receives is the payload under the response's status code.
\<close>

record send_result =
  audit_result :: audit_outcome
  delivered_status :: int
  delivered :: jsval

definition auditLogger_send ::
  "(auditData \<Rightarrow> js_error option) \<Rightarrow> (string \<Rightarrow> js_error + jsval) \<Rightarrow>
     request \<Rightarrow> response \<Rightarrow> int \<Rightarrow> int \<Rightarrow> jsval \<Rightarrow> send_result" where
  "auditLogger_send persist json_parse req res startTime now responseData =
     (let dur = now - startTime in
      \<lparr> audit_result = createAuditEntry persist json_parse req res dur responseData,
        delivered_status = statusCode res,
        delivered = responseData \<rparr>)"

text \<open>
  \<open>createManualAuditEntry\<close>: the write is awaited inside \<open>try\<close>, and the \<open>catch\<close> logs. The
  result is what reaches the console; nothing is thrown to the caller.
\<close>

definition createManualAuditEntry ::
  "(auditData \<Rightarrow> js_error option) \<Rightarrow> auditData \<Rightarrow> js_error list" where
  "createManualAuditEntry persist d = (case persist d of None \<Rightarrow> [] | Some e \<Rightarrow> [e])"

text \<open>An entry written by hand: the properties the call sites set, the others absent.\<close>

definition manual_entry ::
  "string option \<Rightarrow> string option \<Rightarrow> string option \<Rightarrow> string \<Rightarrow> event_type \<Rightarrow>
     severity_level \<Rightarrow> audit_status \<Rightarrow> string option \<Rightarrow> string \<Rightarrow> string \<Rightarrow> auditData" where
  "manual_entry uid ip ua act ev sev st err res ctx =
     \<lparr> userId = uid, sessionId = None, ipAddress = ip, userAgent = ua, action = act,
       resource = Some res, resourceId = None, resourceType = None, eventType = ev,
       severity = sev, status = st, details = None, phiAccessed = None, phiFields = None,
       purpose = None, location = None, entry_context = Some ctx, duration = None,
       errorMessage = map_option JStr err, newValues = None \<rparr>"

section \<open>The actor (models/User.js)\<close>

text \<open>Dates are milliseconds since the epoch; an unset date column is \<open>None\<close>.\<close>

record user =
  uid :: string
  email :: string
  password :: string
  role :: string
  isActive :: bool
  lastLogin :: "int option"
  passwordChangedAt :: "int option"
  failedLoginAttempts :: int
  lockedUntil :: "int option"
  hipaaTrainingCompleted :: bool
  dataAccessLevel :: string

text \<open>
  The \<open>beforeUpdate\<close> hook run by \<open>save\<close>: when the password differs from the persisted
  one it is hashed and the change is stamped. \<open>bcrypt.hash\<close> is the parameter \<open>hash\<close>.
\<close>

definition beforeUpdate :: "(string \<Rightarrow> string) \<Rightarrow> int \<Rightarrow> user \<Rightarrow> user \<Rightarrow> user" where
  "beforeUpdate hash now persisted u =
     (if password u \<noteq> password persisted
      then u\<lparr>password := hash (password u), passwordChangedAt := Some now\<rparr>
      else u)"

section \<open>Login and password change (routes/auth.js)\<close>

datatype app_error = ValidationError string | AuthenticationError string

fun error_status :: "app_error \<Rightarrow> int" where
  "error_status (ValidationError m) = 400"
| "error_status (AuthenticationError m) = 401"

text \<open>What a handler does besides answering, in the order it does it.\<close>

datatype effect = ManualAudit auditData | ValidatePassword string | Save user

record login_request =
  errors_empty :: bool
  body_email :: string
  body_password :: string
  login_ip :: "string option"
  login_user_agent :: "string option"

record token_payload =
  tp_userId :: string
  tp_email :: string
  tp_role :: string
  tp_iat :: int

record login_response =
  message :: string
  token :: string
  logged_in :: user
  requiresHIPAATraining :: bool

text \<open>
  \<open>POST /login\<close>. \<open>User.findByEmail\<close>, \<open>bcrypt.compare\<close> and \<open>jwt.sign\<close> are parameters;
  \<open>now\<close> is the clock of the request. The password is not touched, so the hook of \<open>save\<close>
  leaves the user as the handler set it.
\<close>

definition login ::
  "(string \<Rightarrow> user option) \<Rightarrow> (string \<Rightarrow> string \<Rightarrow> bool) \<Rightarrow> (token_payload \<Rightarrow> string) \<Rightarrow>
     int \<Rightarrow> login_request \<Rightarrow> effect list \<times> (app_error + login_response)" where
  "login findByEmail compare jwt_sign now req =
     (if \<not> errors_empty req then ([], Inl (ValidationError ''Validation failed''))
      else case findByEmail (body_email req) of
        None \<Rightarrow>
          ([ManualAudit (manual_entry None (login_ip req) (login_user_agent req) ''LOGIN_ATTEMPT''
              Failed_login Medium Failure (Some ''User not found'') ''/api/auth/login''
              ''Login attempt'')],
           Inl (AuthenticationError ''Invalid email or password''))
      | Some u \<Rightarrow>
          if (case lockedUntil u of None \<Rightarrow> False | Some t \<Rightarrow> t > now) then
            ([ManualAudit (manual_entry (Some (uid u)) (login_ip req) (login_user_agent req)
                ''LOGIN_ATTEMPT'' Access_denied Medium Failure (Some ''Account locked'')
                ''/api/auth/login'' ''Login attempt - account locked'')],
             Inl (AuthenticationError
                ''Account is temporarily locked due to multiple failed login attempts''))
          else if \<not> compare (body_password req) (password u) then
            (let u1 = u\<lparr>failedLoginAttempts := failedLoginAttempts u + 1\<rparr>;
                 u2 = (if failedLoginAttempts u1 \<ge> 5
                       then u1\<lparr>lockedUntil := Some (now + 30 * 60 * 1000)\<rparr> else u1)
             in ([ValidatePassword (body_password req), Save u2,
                  ManualAudit (manual_entry (Some (uid u)) (login_ip req) (login_user_agent req)
                    ''LOGIN_ATTEMPT'' Failed_login Medium Failure (Some ''Invalid password'')
                    ''/api/auth/login'' ''Login attempt - invalid password'')],
                 Inl (AuthenticationError ''Invalid email or password'')))
          else if \<not> isActive u then
            ([ValidatePassword (body_password req),
              ManualAudit (manual_entry (Some (uid u)) (login_ip req) (login_user_agent req)
                ''LOGIN_ATTEMPT'' Access_denied High Failure (Some ''Account inactive'')
                ''/api/auth/login'' ''Login attempt - inactive account'')],
             Inl (AuthenticationError ''Account is inactive''))
          else
            (let u' = u\<lparr>failedLoginAttempts := 0, lockedUntil := None, lastLogin := Some now\<rparr>;
                 tok = jwt_sign \<lparr> tp_userId = uid u', tp_email = email u', tp_role = role u',
                                  tp_iat = now div 1000 \<rparr>
             in ([ValidatePassword (body_password req), Save u',
                  ManualAudit (manual_entry (Some (uid u')) (login_ip req) (login_user_agent req)
                    ''LOGIN_SUCCESS'' Login Medium Success None ''/api/auth/login''
                    ''Successful login'')],
                 Inr \<lparr> message = ''Login successful'', token = tok, logged_in = u',
                       requiresHIPAATraining = (\<not> hipaaTrainingCompleted u') \<rparr>)))"

text \<open>The answer of \<open>POST /login\<close> to a locked account: one audit entry and the error.\<close>

definition locked_failure :: "user \<Rightarrow> login_request \<Rightarrow> effect list \<times> (app_error + login_response)" where
  "locked_failure u req =
     ([ManualAudit (manual_entry (Some (uid u)) (login_ip req) (login_user_agent req)
         ''LOGIN_ATTEMPT'' Access_denied Medium Failure (Some ''Account locked'')
         ''/api/auth/login'' ''Login attempt - account locked'')],
      Inl (AuthenticationError
         ''Account is temporarily locked due to multiple failed login attempts''))"

text \<open>The user as the handler left it: the last one saved, the given one when none was.\<close>

fun user_after :: "user \<Rightarrow> effect list \<Rightarrow> user" where
  "user_after u [] = u"
| "user_after u (Save u' # es) = user_after u' es"
| "user_after u (e # es) = user_after u es"

text \<open>
  A run of login attempts against one actor: each attempt is a clock reading and a
  request; the directory always resolves to the actor as the previous attempt left it.
\<close>

fun login_run ::
  "(string \<Rightarrow> string \<Rightarrow> bool) \<Rightarrow> (token_payload \<Rightarrow> string) \<Rightarrow> user \<Rightarrow>
     (int \<times> login_request) list \<Rightarrow> user \<times> (app_error + login_response) list" where
  "login_run compare jwt_sign u [] = (u, [])"
| "login_run compare jwt_sign u ((now, req) # rest) =
     (let (effs, out) = login (\<lambda>e. Some u) compare jwt_sign now req;
          (u', outs) = login_run compare jwt_sign (user_after u effs) rest
      in (u', out # outs))"

text \<open>
  The credential change of \<open>POST /change-password\<close> (lines 317 and 318): the new password
  is assigned to the actor and the actor is saved, which runs the \<open>beforeUpdate\<close> hook.
\<close>

definition update_password :: "(string \<Rightarrow> string) \<Rightarrow> int \<Rightarrow> user \<Rightarrow> string \<Rightarrow> user" where
  "update_password hash now u newPassword = beforeUpdate hash now u (u\<lparr>password := newPassword\<rparr>)"

text \<open>
  \<open>POST /change-password\<close>. \<open>min_length\<close> is \<open>parseInt(process.env.PASSWORD_MIN_LENGTH)\<close>,
  \<open>None\<close> when it is not a number. The test of line 312 is
  \<open>(newPassword.length < min_length) || 12\<close>: the comparison when it holds, else 12.
\<close>

definition change_password ::
  "(string \<Rightarrow> string \<Rightarrow> bool) \<Rightarrow> (string \<Rightarrow> string) \<Rightarrow> int option \<Rightarrow> int \<Rightarrow> user option \<Rightarrow>
     login_request \<Rightarrow> string \<Rightarrow> string \<Rightarrow> effect list \<times> (app_error + string)" where
  "change_password compare hash min_length now req_user req currentPassword newPassword =
     (case req_user of
        None \<Rightarrow> ([], Inl (AuthenticationError ''Authentication required''))
      | Some u \<Rightarrow>
          if \<not> compare currentPassword (password u) then
            ([ValidatePassword currentPassword],
             Inl (AuthenticationError ''Current password is incorrect''))
          else if truthy
              (if (case min_length of None \<Rightarrow> False | Some n \<Rightarrow> int (length newPassword) < n)
               then JBool True else JNum 12) then
            ([ValidatePassword currentPassword],
             Inl (ValidationError ''New password does not meet requirements''))
          else
            (let u' = update_password hash now u newPassword
             in ([ValidatePassword currentPassword, Save u',
                  ManualAudit (manual_entry (Some (uid u')) (login_ip req) (login_user_agent req)
                    ''PASSWORD_CHANGE'' Password_change Medium Success None
                    ''/api/auth/change-password'' ''Password change'')],
                 Inr ''Password changed successfully'')))"

section \<open>Authentication and authorization middleware (middleware/auth.js)\<close>

text \<open>
  A middleware answers the request, passes it on with \<open>next()\<close>, or ends in a rejection
  that nothing handles, in which case the request gets no answer from it.
\<close>

datatype mw_result = Responded int string string | Next | Unhandled js_error

record decoded_token =
  tok_userId :: string
  tok_iat :: int

fun split_on :: "char \<Rightarrow> string \<Rightarrow> string list" where
  "split_on c [] = [[]]"
| "split_on c (x # xs) =
     (if x = c then [] # split_on c xs
      else (case split_on c xs of [] \<Rightarrow> [[x]] | w # ws \<Rightarrow> (x # w) # ws))"

text \<open>\<open>authHeader && authHeader.split(' ')[1]\<close>, \<open>None\<close> when the result is falsy.\<close>

definition bearer_token :: "string option \<Rightarrow> string option" where
  "bearer_token authHeader =
     (case authHeader of
        None \<Rightarrow> None
      | Some h \<Rightarrow>
          if h = [] then None
          else (case split_on CHR '' '' h of
                  a # b # rest \<Rightarrow> if b = [] then None else Some b
                | _ \<Rightarrow> None))"

definition api_entry ::
  "request \<Rightarrow> string option \<Rightarrow> string \<Rightarrow> event_type \<Rightarrow> severity_level \<Rightarrow> audit_status \<Rightarrow>
     string option \<Rightarrow> string \<Rightarrow> auditData" where
  "api_entry req u act ev sev st err ctx =
     manual_entry u (req_ip req) (hdr_user_agent req) act ev sev st err (originalUrl req) ctx"

text \<open>\<open>await Audit.createEntry(d)\<close> followed by \<open>k\<close>: the write is attempted, and its rejection is thrown.\<close>

definition awaited ::
  "(auditData \<Rightarrow> js_error option) \<Rightarrow> auditData \<Rightarrow> 'a \<Rightarrow> auditData list \<times> (js_error + 'a)" where
  "awaited persist d k = ([d], case persist d of Some e \<Rightarrow> Inl e | None \<Rightarrow> Inr k)"

text \<open>
  The \<open>try\<close> block of \<open>authenticateToken\<close>: the entries handed to the store, and either
  the error thrown or the result with the user attached to the request. \<open>jwt.verify\<close> and
  \<open>User.findByPk\<close> are parameters. The issue time of a token is in seconds, the password
  change in milliseconds, compared as the source does.
\<close>

definition authenticateToken_try ::
  "(auditData \<Rightarrow> js_error option) \<Rightarrow> (string \<Rightarrow> js_error + decoded_token) \<Rightarrow>
     (string \<Rightarrow> user option) \<Rightarrow> request \<Rightarrow>
     auditData list \<times> (js_error + mw_result \<times> user option)" where
  "authenticateToken_try persist jwt_verify findByPk req =
     (case bearer_token (hdr_authorization req) of
        None \<Rightarrow>
          awaited persist
            (api_entry req None ''API_ACCESS'' Access_denied High Failure
               (Some ''No token provided'') ''Authentication middleware'')
            (Responded 401 ''Access denied'' ''Authentication token is required'', None)
      | Some tok \<Rightarrow>
          (case jwt_verify tok of
             Inl e \<Rightarrow> ([], Inl e)
           | Inr decoded \<Rightarrow>
               (let denied =
                      awaited persist
                        (api_entry req (Some (tok_userId decoded)) ''API_ACCESS'' Access_denied
                           High Failure (Some ''User not found or inactive'')
                           ''Authentication middleware'')
                        (Responded 401 ''Access denied''
                           ''User account is inactive or not found'', None)
                in case findByPk (tok_userId decoded) of
                     None \<Rightarrow> denied
                   | Some u \<Rightarrow>
                       if \<not> isActive u then denied
                       else if (case passwordChangedAt u of
                                  None \<Rightarrow> False
                                | Some t \<Rightarrow> (of_int (tok_iat decoded) :: rat) < of_int t / 1000) then
                         awaited persist
                           (api_entry req (Some (uid u)) ''API_ACCESS'' Access_denied Medium
                              Failure (Some ''Token issued before password change'')
                              ''Authentication middleware'')
                           (Responded 401 ''Access denied''
                              ''Password was changed, please login again'', None)
                       else ([], Inr (Next, Some u)))))"

text \<open>
  \<open>authenticateToken\<close> with its \<open>catch\<close>: the two token errors are audited (awaited, outside
  any \<open>try\<close>) and answered with 401; every other error, whatever threw it, is answered
  with 500.
\<close>

definition authenticateToken ::
  "(auditData \<Rightarrow> js_error option) \<Rightarrow> (string \<Rightarrow> js_error + decoded_token) \<Rightarrow>
     (string \<Rightarrow> user option) \<Rightarrow> request \<Rightarrow> auditData list \<times> mw_result \<times> user option" where
  "authenticateToken persist jwt_verify findByPk req =
     (case authenticateToken_try persist jwt_verify findByPk req of
        (ds, Inr (r, u)) \<Rightarrow> (ds, r, u)
      | (ds, Inl error) \<Rightarrow>
          if err_name error = ''TokenExpiredError'' then
            (let d = api_entry req None ''API_ACCESS'' Access_denied Medium Failure
                       (Some ''Token expired'') ''Authentication middleware''
             in (ds @ [d],
                 (case persist d of
                    Some e \<Rightarrow> Unhandled e
                  | None \<Rightarrow> Responded 401 ''Access denied'' ''Token has expired''),
                 None))
          else if err_name error = ''JsonWebTokenError'' then
            (let d = api_entry req None ''API_ACCESS'' Access_denied High Failure
                       (Some ''Invalid token'') ''Authentication middleware''
             in (ds @ [d],
                 (case persist d of
                    Some e \<Rightarrow> Unhandled e
                  | None \<Rightarrow> Responded 401 ''Access denied'' ''Invalid token''),
                 None))
          else (ds, Responded 500 ''Internal server error'' ''Authentication failed'', None))"

text \<open>
  The three gates. Each returns the entries handed to the store, the rejections of writes
  that were not awaited, and the result. \<open>requireRole\<close> and \<open>requireDataAccessLevel\<close> do not
  await the write; \<open>requireHIPAATraining\<close> does, outside any \<open>try\<close>.
\<close>

fun join :: "string \<Rightarrow> string list \<Rightarrow> string" where
  "join sep [] = []"
| "join sep [x] = x"
| "join sep (x # y # ys) = x @ sep @ join sep (y # ys)"

definition floating :: "(auditData \<Rightarrow> js_error option) \<Rightarrow> auditData \<Rightarrow> js_error list" where
  "floating persist d = (case persist d of None \<Rightarrow> [] | Some e \<Rightarrow> [e])"

definition requireRole ::
  "(auditData \<Rightarrow> js_error option) \<Rightarrow> string list \<Rightarrow> user option \<Rightarrow> request \<Rightarrow>
     auditData list \<times> js_error list \<times> mw_result" where
  "requireRole persist roles req_user req =
     (case req_user of
        None \<Rightarrow> ([], [], Responded 401 ''Access denied'' ''Authentication required'')
      | Some u \<Rightarrow>
          if role u \<notin> set roles then
            (let d = api_entry req (Some (uid u)) ''ROLE_ACCESS'' Access_denied Medium Failure
                       (Some (''Insufficient role. Required: '' @ join '', '' roles @ '', User: ''
                              @ role u))
                       ''Role-based access control''
             in ([d], floating persist d, Responded 403 ''Access denied'' ''Insufficient permissions''))
          else ([], [], Next))"

definition requireHIPAATraining ::
  "(auditData \<Rightarrow> js_error option) \<Rightarrow> user option \<Rightarrow> request \<Rightarrow>
     auditData list \<times> js_error list \<times> mw_result" where
  "requireHIPAATraining persist req_user req =
     (case req_user of
        None \<Rightarrow> ([], [], Responded 401 ''Access denied'' ''Authentication required'')
      | Some u \<Rightarrow>
          if \<not> hipaaTrainingCompleted u then
            (let d = api_entry req (Some (uid u)) ''HIPAA_ACCESS'' Access_denied High Failure
                       (Some ''HIPAA training not completed'') ''HIPAA compliance check''
             in ([d], [],
                 (case persist d of
                    Some e \<Rightarrow> Unhandled e
                  | None \<Rightarrow> Responded 403 ''Access denied''
                      ''HIPAA training must be completed before accessing patient data'')))
          else ([], [], Next))"

text \<open>\<open>accessLevels[level] || 0\<close>: the rank of the three known levels, 0 for anything else.\<close>

definition accessLevels :: "string \<Rightarrow> int" where
  "accessLevels level =
     (if level = ''readonly'' then 1 else if level = ''limited'' then 2
      else if level = ''full'' then 3 else 0)"

definition requireDataAccessLevel ::
  "(auditData \<Rightarrow> js_error option) \<Rightarrow> string \<Rightarrow> user option \<Rightarrow> request \<Rightarrow>
     auditData list \<times> js_error list \<times> mw_result" where
  "requireDataAccessLevel persist requiredLevel req_user req =
     (case req_user of
        None \<Rightarrow> ([], [], Responded 401 ''Access denied'' ''Authentication required'')
      | Some u \<Rightarrow>
          (let userLevel = accessLevels (dataAccessLevel u);
               requiredLevelNum = accessLevels requiredLevel
           in if userLevel < requiredLevelNum then
                (let d = api_entry req (Some (uid u)) ''DATA_ACCESS'' Access_denied Medium Failure
                           (Some (''Insufficient data access level. Required: '' @ requiredLevel
                                  @ '', User: '' @ dataAccessLevel u))
                           ''Data access level check''
                 in ([d], floating persist d,
                     Responded 403 ''Access denied'' ''Insufficient data access level''))
              else ([], [], Next)))"

section \<open>Flat-file export of the audit log (GET /export/csv)\<close>

text \<open>
  A row read back from the store. The three enumerated columns come back as strings. The
  timestamp is a \<open>Date\<close>; \<open>Date.prototype.toString\<close> is the parameter \<open>date_string\<close>.
\<close>

record audit_log =
  log_timestamp :: "int option"
  log_userId :: "string option"
  log_ipAddress :: "string option"
  log_action :: string
  log_resource :: "string option"
  log_eventType :: string
  log_severity :: string
  log_status :: string
  log_phiAccessed :: bool
  log_errorMessage :: "string option"
  log_context :: "string option"

datatype cell = CNull | CBool bool | CText string | CDate int

definition dquote :: char where
  "dquote = CHR 0x22"

definition csvHeaders :: "string list" where
  "csvHeaders = [''Timestamp'', ''User ID'', ''IP Address'', ''Action'', ''Resource'',
                 ''Event Type'', ''Severity'', ''Status'', ''PHI Accessed'', ''Error Message'',
                 ''Context'']"

definition opt_text :: "string option \<Rightarrow> cell" where
  "opt_text a = (case a of None \<Rightarrow> CNull | Some s \<Rightarrow> CText s)"

definition csvRow :: "audit_log \<Rightarrow> cell list" where
  "csvRow row =
     [(case log_timestamp row of None \<Rightarrow> CNull | Some t \<Rightarrow> CDate t),
      opt_text (log_userId row),
      opt_text (log_ipAddress row),
      CText (log_action row),
      opt_text (log_resource row),
      CText (log_eventType row),
      CText (log_severity row),
      CText (log_status row),
      CBool (log_phiAccessed row),
      opt_text (log_errorMessage row),
      opt_text (log_context row)]"

text \<open>The text of \<open>${field || ''}\<close>: empty for a falsy field, the string conversion otherwise.\<close>

fun cell_text :: "(int \<Rightarrow> string) \<Rightarrow> cell \<Rightarrow> string" where
  "cell_text date_string CNull = []"
| "cell_text date_string (CBool b) = (if b then ''true'' else [])"
| "cell_text date_string (CText s) = s"
| "cell_text date_string (CDate t) = date_string t"

definition csv_field :: "(int \<Rightarrow> string) \<Rightarrow> cell \<Rightarrow> string" where
  "csv_field date_string field = dquote # cell_text date_string field @ [dquote]"

definition csv_lines :: "(int \<Rightarrow> string) \<Rightarrow> audit_log list \<Rightarrow> string list" where
  "csv_lines date_string auditLogs =
     map (\<lambda>row. join '','' (map (csv_field date_string) row))
         (map CText csvHeaders # map csvRow auditLogs)"

definition csvContent :: "(int \<Rightarrow> string) \<Rightarrow> audit_log list \<Rightarrow> string" where
  "csvContent date_string auditLogs = join [CHR 0x0A] (csv_lines date_string auditLogs)"

text \<open>
  The quoting the specification documents, written from its words: the field between
  double quotes, every double quote inside it doubled.
\<close>

definition spec_quote :: "string \<Rightarrow> string" where
  "spec_quote s = dquote # concat (map (\<lambda>c. if c = dquote then [dquote, dquote] else [c]) s) @ [dquote]"

section \<open>Notions used to state the properties of the classifier\<close>

text \<open>The value bound to key \<open>k\<close> in \<open>v\<close> is truthy (false when \<open>v\<close> is not an object).\<close>

definition truthy_at :: "jsval \<Rightarrow> string \<Rightarrow> bool" where
  "truthy_at v k =
     (case v of
        JObj kvs \<Rightarrow> (case map_of kvs k of None \<Rightarrow> False | Some x \<Rightarrow> truthy x)
      | _ \<Rightarrow> False)"

text \<open>One of the keys read by \<open>extractPHIFields\<close> is present with a truthy value.\<close>

definition mentions_phi :: "jsval \<Rightarrow> jsval \<Rightarrow> bool" where
  "mentions_phi b q =
     (list_ex (truthy_at b) [''firstName'', ''lastName'', ''dateOfBirth'', ''ssn'', ''phone'',
                             ''email'', ''address'', ''medicalHistory'']
      \<or> list_ex (truthy_at q) [''name'', ''dob''])"

text \<open>
  The part of a draft that the classifier derives from method, URL, status code, body and
  query: everything but the identity of the caller, the headers, the timing and the error
  text taken from the response payload.
\<close>

definition classification ::
  "auditData \<Rightarrow> event_type \<times> severity_level \<times> audit_status \<times> resource_type option \<times>
     bool option \<times> string list option \<times> string option \<times> string option \<times> string \<times>
     string option \<times> (string \<times> jsval) list option" where
  "classification d =
     (eventType d, severity d, status d, resourceType d, phiAccessed d, phiFields d,
      purpose d, resourceId d, action d, resource d, newValues d)"



section \<open>Sample inputs\<close>

definition mk_request :: "string \<Rightarrow> string \<Rightarrow> jsval \<Rightarrow> jsval \<Rightarrow> request" where
  "mk_request m url b q =
     \<lparr> req_method = m, originalUrl = url, req_body = b, req_query = q,
       req_user_id = Some ''u-1'', sessionID = None, req_ip = Some ''10.0.0.7'',
       remoteAddress = None, hdr_authorization = None, hdr_user_agent = Some ''curl'', hdr_referer = None,
       hdr_forwarded_for = None, hdr_request_context = None \<rparr>"

definition store_ok :: "auditData \<Rightarrow> js_error option" where
  "store_ok d = None"

definition store_down :: "auditData \<Rightarrow> js_error option" where
  "store_down d = Some (JsError ''SequelizeConnectionError'' ''connection refused'')"

definition no_json :: "string \<Rightarrow> js_error + jsval" where
  "no_json s = Inl (JsError ''SyntaxError'' ''Unexpected token'')"

definition json_as_text :: "string \<Rightarrow> js_error + jsval" where
  "json_as_text s = Inr (JStr s)"

definition sample_compare :: "string \<Rightarrow> string \<Rightarrow> bool" where
  "sample_compare p h = (h = ''bcrypt:'' @ p)"


definition sample_sign :: "token_payload \<Rightarrow> string" where
  "sample_sign p = ''jwt.'' @ tp_userId p"

definition sample_user :: "int \<Rightarrow> int option \<Rightarrow> user" where
  "sample_user n l =
     \<lparr> uid = ''u-1'', email = ''a@clinic.test'', password = ''bcrypt:Correct-Horse-1!'',
       role = ''provider'', isActive = True, lastLogin = None, passwordChangedAt = Some 1000,
       failedLoginAttempts = n, lockedUntil = l, hipaaTrainingCompleted = True,
       dataAccessLevel = ''limited'' \<rparr>"

definition sample_login :: "string \<Rightarrow> login_request" where
  "sample_login pw =
     \<lparr> errors_empty = True, body_email = ''a@clinic.test'', body_password = pw,
       login_ip = Some ''10.0.0.7'', login_user_agent = Some ''curl'' \<rparr>"

definition sample_verify :: "string \<Rightarrow> js_error + decoded_token" where
  "sample_verify tok =
     (if tok = ''issued-at-0'' then Inr \<lparr>tok_userId = ''u-1'', tok_iat = 0\<rparr>
      else if tok = ''old'' then Inl (JsError ''TokenExpiredError'' ''jwt expired'')
      else Inl (JsError ''JsonWebTokenError'' ''invalid signature''))"

definition sample_directory :: "user \<Rightarrow> string \<Rightarrow> user option" where
  "sample_directory u k = (if k = uid u then Some u else None)"

definition with_bearer :: "string \<Rightarrow> request \<Rightarrow> request" where
  "with_bearer tok req = req\<lparr>hdr_authorization := Some (''Bearer '' @ tok)\<rparr>"

definition untrained :: "user \<Rightarrow> user" where
  "untrained u = u\<lparr>hipaaTrainingCompleted := False\<rparr>"

definition sample_date :: "int \<Rightarrow> string" where
  "sample_date t = ''Tue Nov 03 2026''"

definition sample_log :: "string option \<Rightarrow> string option \<Rightarrow> audit_log" where
  "sample_log err ctx =
     \<lparr> log_timestamp = Some 0, log_userId = Some ''u-1'', log_ipAddress = Some ''10.0.0.7'',
       log_action = ''GET /api/patients'', log_resource = Some ''/api/patients'',
       log_eventType = ''read'', log_severity = ''high'', log_status = ''failure'',
       log_phiAccessed = True, log_errorMessage = err, log_context = ctx \<rparr>"

section \<open>Substring test\<close>


section \<open>Outcome of a classified request\<close>

text \<open>
  C9. Whatever the request and the response, the draft built by \<open>createAuditEntry\<close> has
  status \<open>failure\<close> exactly when the response status code is at least 400 and \<open>success\<close>
  exactly when it is below 400; the status \<open>warning\<close> is never produced.
\<close>

theorem draft_status_failure_iff_ge_400:
  "createAuditEntry_draft json_parse req res dur responseData = Inr d \<Longrightarrow>
     (status d = Failure \<longleftrightarrow> statusCode res \<ge> 400) \<and>
     (status d = Success \<longleftrightarrow> statusCode res < 400) \<and>
     status d \<noteq> Warning"
  unfolding createAuditEntry_draft_def Let_def bindE_def
  by (auto split: sum.splits if_splits)

theorem draft_status_failure_iff_ge_400_witness:
  "createAuditEntry_draft no_json (mk_request ''GET'' ''/api/users'' JUndefined (JObj []))
       \<lparr>statusCode = 404\<rparr> 7 JUndefined \<noteq> Inl TypeError \<and>
   map_sum err_name status
     (createAuditEntry_draft no_json (mk_request ''GET'' ''/api/users'' JUndefined (JObj []))
       \<lparr>statusCode = 404\<rparr> 7 JUndefined) = Inr Failure"
proof -
  obtain d where d: "createAuditEntry_draft no_json
      (mk_request ''GET'' ''/api/users'' JUndefined (JObj [])) \<lparr>statusCode = 404\<rparr> 7 JUndefined = Inr d"
    by (simp add: createAuditEntry_draft_def Let_def bindE_def isPHIAccess_def phiEndpoints_def
        mk_request_def)
  from draft_status_failure_iff_ge_400 [OF d] have "status d = Failure" by simp
  with d show ?thesis by simp
qed

section \<open>The classifier never throws\<close>

lemma truthy_prop_guarded: "truthy v \<Longrightarrow> truthy_prop v k = Inr (truthy_at v k)"
  by (cases v) (auto simp: truthy_prop_def truthy_at_def bindE_def TypeError_def split: option.splits)

lemma truthy_at_falsy: "\<not> truthy v \<Longrightarrow> \<not> truthy_at v k"
  by (cases v) (auto simp: truthy_at_def)

lemma push_if_Inr: "push_if (Inr c) l acc = Inr (if c then acc @ [l] else acc)"
  by (simp add: push_if_def bindE_def)

lemma bindE_Inr: "bindE (Inr v) f = f v"
  by (simp add: bindE_def)

lemma body_phi_total:
  assumes "truthy b"
  shows "\<exists>r. body_phi b f0 = Inr (f0 @ r) \<and>
     (r \<noteq> [] \<longleftrightarrow> list_ex (truthy_at b) [''firstName'', ''lastName'', ''dateOfBirth'', ''ssn'', ''phone'',
                             ''email'', ''address'', ''medicalHistory''])"
  unfolding body_phi_def
  by (simp add: truthy_prop_guarded [OF assms] push_if_Inr bindE_Inr)

lemma query_phi_total:
  assumes "truthy q"
  shows "\<exists>r. query_phi q f0 = Inr (f0 @ r) \<and> (r \<noteq> [] \<longleftrightarrow> list_ex (truthy_at q) [''name'', ''dob''])"
  unfolding query_phi_def
  by (simp add: truthy_prop_guarded [OF assms] push_if_Inr bindE_Inr)

lemma extractPHIFields_total:
  "\<exists>r. extractPHIFields b q = Inr r \<and> r \<noteq> Some [] \<and> (r = None \<longleftrightarrow> \<not> mentions_phi b q)"
proof -
  obtain r1 where r1: "(if truthy b then body_phi b [] else Inr []) = Inr r1"
    and r1': "r1 \<noteq> [] \<longleftrightarrow> list_ex (truthy_at b) [''firstName'', ''lastName'', ''dateOfBirth'', ''ssn'', ''phone'',
                             ''email'', ''address'', ''medicalHistory'']"
  proof (cases "truthy b")
    case True
    from body_phi_total [OF True, of "[]"] obtain r where "body_phi b [] = Inr r"
      "r \<noteq> [] \<longleftrightarrow> list_ex (truthy_at b) [''firstName'', ''lastName'', ''dateOfBirth'', ''ssn'', ''phone'',
                             ''email'', ''address'', ''medicalHistory'']" by auto
    with True that show ?thesis by simp
  next
    case False
    then have "(if truthy b then body_phi b [] else Inr []) = Inr []" by simp
    moreover from False have "\<not> list_ex (truthy_at b) [''firstName'', ''lastName'', ''dateOfBirth'', ''ssn'', ''phone'',
                             ''email'', ''address'', ''medicalHistory'']"
      by (simp add: truthy_at_falsy)
    ultimately show ?thesis using that by blast
  qed
  obtain r2 where r2: "(if truthy q then query_phi q r1 else Inr r1) = Inr (r1 @ r2)"
    and r2': "r2 \<noteq> [] \<longleftrightarrow> list_ex (truthy_at q) [''name'', ''dob'']"
  proof (cases "truthy q")
    case True
    from query_phi_total [OF True, of r1] obtain r where "query_phi q r1 = Inr (r1 @ r)"
      "r \<noteq> [] \<longleftrightarrow> list_ex (truthy_at q) [''name'', ''dob'']" by auto
    with True that show ?thesis by simp
  next
    case False
    then have "(if truthy q then query_phi q r1 else Inr r1) = Inr (r1 @ [])" by simp
    moreover from False have "\<not> list_ex (truthy_at q) [''name'', ''dob'']"
      by (simp add: truthy_at_falsy)
    ultimately show ?thesis using that by blast
  qed
  have "extractPHIFields b q = Inr (if length (r1 @ r2) > 0 then Some (r1 @ r2) else None)"
    unfolding extractPHIFields_def r1 bindE_Inr r2 ..
  moreover have "r1 @ r2 \<noteq> [] \<longleftrightarrow> mentions_phi b q"
    using r1' r2' unfolding mentions_phi_def by simp
  ultimately show ?thesis by auto
qed

lemma createAuditEntry_draft_total:
  "\<exists>d. createAuditEntry_draft json_parse req res dur responseData = Inr d"
proof -
  obtain r where "extractPHIFields (req_body req) (req_query req) = Inr r"
    using extractPHIFields_total by blast
  then show ?thesis
    unfolding createAuditEntry_draft_def Let_def by (simp add: bindE_Inr)
qed

text \<open>
  C3. The classifier is total and deterministic. Building the draft never throws, for
  every method, URL, status code, body, query, response payload and JSON parser: the
  property reads of \<open>extractPHIFields\<close> are all guarded. And two requests that agree on
  method, URL, body and query, answered with the same status code, get the same
  classification, whoever sent them, whenever, and whatever the response payload was.
\<close>

theorem classifier_total_and_deterministic:
  "(\<exists>d. createAuditEntry_draft json_parse req res dur responseData = Inr d) \<and>
   (req_method r1 = req_method r2 \<and> originalUrl r1 = originalUrl r2 \<and>
    req_body r1 = req_body r2 \<and> req_query r1 = req_query r2 \<and> statusCode s1 = statusCode s2
    \<longrightarrow> map_sum id classification (createAuditEntry_draft jp1 r1 s1 d1 x1)
        = map_sum id classification (createAuditEntry_draft jp2 r2 s2 d2 x2))"
proof (intro conjI impI)
  show "\<exists>d. createAuditEntry_draft json_parse req res dur responseData = Inr d"
    by (rule createAuditEntry_draft_total)
next
  assume eq: "req_method r1 = req_method r2 \<and> originalUrl r1 = originalUrl r2 \<and>
    req_body r1 = req_body r2 \<and> req_query r1 = req_query r2 \<and> statusCode s1 = statusCode s2"
  obtain r where r: "extractPHIFields (req_body r2) (req_query r2) = Inr r"
    using extractPHIFields_total by blast
  from eq show "map_sum id classification (createAuditEntry_draft jp1 r1 s1 d1 x1)
        = map_sum id classification (createAuditEntry_draft jp2 r2 s2 d2 x2)"
    unfolding createAuditEntry_draft_def Let_def
    by (simp add: bindE_Inr r classification_def)
qed

theorem classifier_total_and_deterministic_witness:
  "req_method (mk_request ''POST'' ''/api/patients'' (JObj [(''ssn'', JStr ''1'')]) (JObj []))
     = req_method ((mk_request ''POST'' ''/api/patients'' (JObj [(''ssn'', JStr ''1'')]) (JObj []))
                     \<lparr>req_user_id := None, req_ip := Some ''10.9.9.9''\<rparr>) \<and>
   map_sum id classification
     (createAuditEntry_draft no_json
        (mk_request ''POST'' ''/api/patients'' (JObj [(''ssn'', JStr ''1'')]) (JObj []))
        \<lparr>statusCode = 201\<rparr> 5 JUndefined)
   = map_sum id classification
     (createAuditEntry_draft json_as_text
        ((mk_request ''POST'' ''/api/patients'' (JObj [(''ssn'', JStr ''1'')]) (JObj []))
           \<lparr>req_user_id := None, req_ip := Some ''10.9.9.9''\<rparr>)
        \<lparr>statusCode = 201\<rparr> 900 (JStr ''ok''))"
proof -
  let ?r1 = "mk_request ''POST'' ''/api/patients'' (JObj [(''ssn'', JStr ''1'')]) (JObj [])"
  let ?r2 = "?r1 \<lparr>req_user_id := None, req_ip := Some ''10.9.9.9''\<rparr>"
  have h: "req_method ?r1 = req_method ?r2 \<and> originalUrl ?r1 = originalUrl ?r2 \<and>
    req_body ?r1 = req_body ?r2 \<and> req_query ?r1 = req_query ?r2 \<and>
    statusCode \<lparr>statusCode = 201\<rparr> = statusCode \<lparr>statusCode = 201\<rparr>"
    by simp
  from classifier_total_and_deterministic
    [of no_json ?r1 "\<lparr>statusCode = 201\<rparr>" 5 JUndefined ?r1 ?r2
        "\<lparr>statusCode = 201\<rparr>" "\<lparr>statusCode = 201\<rparr>" no_json 5 JUndefined json_as_text 900 "JStr ''ok''"]
    h show ?thesis by blast
qed

section \<open>PHI field list of a PHI access\<close>

text \<open>
  C4, as the code has it. A draft with \<open>phiAccessed = true\<close> never carries an empty PHI
  field list: the list is \<open>null\<close> when neither the body nor the query holds one of the
  recognised keys with a truthy value, and a non-empty list otherwise.
\<close>

theorem phi_fields_null_or_non_empty:
  "createAuditEntry_draft json_parse req res dur responseData = Inr d \<Longrightarrow>
   phiAccessed d = Some True \<Longrightarrow>
     phiFields d \<noteq> Some [] \<and>
     (phiFields d = None \<longleftrightarrow> \<not> mentions_phi (req_body req) (req_query req))"
proof -
  assume a: "createAuditEntry_draft json_parse req res dur responseData = Inr d"
    and b: "phiAccessed d = Some True"
  obtain r where r: "extractPHIFields (req_body req) (req_query req) = Inr r"
     "r \<noteq> Some []" "r = None \<longleftrightarrow> \<not> mentions_phi (req_body req) (req_query req)"
    using extractPHIFields_total by blast
  from a b have "phiFields d = r"
    unfolding createAuditEntry_draft_def Let_def by (auto simp: bindE_Inr r split: if_splits)
  with r show ?thesis by simp
qed

theorem phi_fields_null_or_non_empty_witness:
  "map_sum id phiAccessed
     (createAuditEntry_draft no_json
        (mk_request ''POST'' ''/api/patients'' (JObj [(''ssn'', JStr ''1'')]) (JObj []))
        \<lparr>statusCode = 201\<rparr> 5 JUndefined) = Inr (Some True) \<and>
   map_sum id phiFields
     (createAuditEntry_draft no_json
        (mk_request ''POST'' ''/api/patients'' (JObj [(''ssn'', JStr ''1'')]) (JObj []))
        \<lparr>statusCode = 201\<rparr> 5 JUndefined) \<noteq> Inr (Some [])"
proof -
  let ?r = "mk_request ''POST'' ''/api/patients'' (JObj [(''ssn'', JStr ''1'')]) (JObj [])"
  obtain d where d: "createAuditEntry_draft no_json ?r \<lparr>statusCode = 201\<rparr> 5 JUndefined = Inr d"
    using createAuditEntry_draft_total by blast
  have p: "phiAccessed d = Some True"
    using d unfolding createAuditEntry_draft_def Let_def
    by (auto simp: bindE_def isPHIAccess_def phiEndpoints_def mk_request_def split: sum.splits)
  from phi_fields_null_or_non_empty [OF d p] d p show ?thesis by simp
qed

text \<open>
  The claim as the specification states it fails: a \<open>GET /api/patients\<close> with no body and
  an empty query is a PHI access, and its draft has no PHI field list at all.
\<close>

theorem phi_access_without_field_list:
  "map phiAccessed (entries_written (createAuditEntry store_ok no_json
      (mk_request ''GET'' ''/api/patients'' JUndefined (JObj [])) \<lparr>statusCode = 200\<rparr> 12 JUndefined))
     = [Some True] \<and>
   map phiFields (entries_written (createAuditEntry store_ok no_json
      (mk_request ''GET'' ''/api/patients'' JUndefined (JObj [])) \<lparr>statusCode = 200\<rparr> 12 JUndefined))
     = [None]"
  by (simp add: createAuditEntry_def createAuditEntry_draft_def Let_def bindE_def
      skipAuditEndpoints_def isPHIAccess_def phiEndpoints_def extractPHIFields_def
      query_phi_def push_if_def truthy_prop_def mk_request_def store_ok_def)

section \<open>Endpoints exempt from the request-level audit\<close>




section \<open>The lockout state machine\<close>

lemma login_locked:
  "errors_empty req \<Longrightarrow> findByEmail (body_email req) = Some u \<Longrightarrow> lockedUntil u = Some t \<Longrightarrow> now < t \<Longrightarrow>
   login findByEmail compare jwt_sign now req = locked_failure u req"
  by (simp add: login_def locked_failure_def)

lemma login_failed:
  assumes "errors_empty req" "findByEmail (body_email req) = Some u"
    "case lockedUntil u of None \<Rightarrow> True | Some t \<Rightarrow> t \<le> now"
    "\<not> compare (body_password req) (password u)"
  shows "snd (login findByEmail compare jwt_sign now req) = Inl (AuthenticationError ''Invalid email or password'')"
    and "failedLoginAttempts (user_after u (fst (login findByEmail compare jwt_sign now req))) = failedLoginAttempts u + 1"
    and "lockedUntil (user_after u (fst (login findByEmail compare jwt_sign now req)))
        = (if failedLoginAttempts u + 1 \<ge> 5 then Some (now + 1800000) else lockedUntil u)"
  using assms by (auto simp: login_def Let_def split: option.splits)

text \<open>
  C1. For a well-formed login request that resolves to an actor: when the actor's lockout
  expiry lies in the future, the attempt is answered by the locked-account failure and its
  only effect is the audit entry, so the password is not compared, whatever it is. When
  the account is not locked and the password is wrong, the attempt fails, the counter is
  incremented, and if it has reached 5 the lockout expiry is set to now plus 30 minutes;
  any next attempt before that expiry, with any password and any comparison, is answered
  by the locked-account failure.
\<close>

theorem locked_account_rejected_without_password_check:
  "errors_empty req \<Longrightarrow> findByEmail (body_email req) = Some u \<Longrightarrow>
   (lockedUntil u = Some t \<and> now < t \<longrightarrow>
      login findByEmail compare jwt_sign now req = locked_failure u req) \<and>
   ((case lockedUntil u of None \<Rightarrow> True | Some t \<Rightarrow> t \<le> now) \<and>
    \<not> compare (body_password req) (password u) \<longrightarrow>
      snd (login findByEmail compare jwt_sign now req)
        = Inl (AuthenticationError ''Invalid email or password'') \<and>
      failedLoginAttempts (user_after u (fst (login findByEmail compare jwt_sign now req)))
        = failedLoginAttempts u + 1 \<and>
      lockedUntil (user_after u (fst (login findByEmail compare jwt_sign now req)))
        = (if failedLoginAttempts u + 1 \<ge> 5 then Some (now + 30 * 60 * 1000) else lockedUntil u) \<and>
      (failedLoginAttempts u + 1 \<ge> 5 \<and> errors_empty req' \<and> now' < now + 30 * 60 * 1000 \<longrightarrow>
         login (\<lambda>e. Some (user_after u (fst (login findByEmail compare jwt_sign now req))))
            compare' jwt_sign' now' req'
         = locked_failure u req'))"
proof (intro conjI impI)
  assume a: "errors_empty req" "findByEmail (body_email req) = Some u"
  { assume "lockedUntil u = Some t \<and> now < t"
    with a show "login findByEmail compare jwt_sign now req = locked_failure u req"
      by (simp add: login_locked) }
  { assume b: "(case lockedUntil u of None \<Rightarrow> True | Some t \<Rightarrow> t \<le> now) \<and>
      \<not> compare (body_password req) (password u)"
    let ?u = "user_after u (fst (login findByEmail compare jwt_sign now req))"
    from a b show "snd (login findByEmail compare jwt_sign now req)
        = Inl (AuthenticationError ''Invalid email or password'')"
      by (simp add: login_failed)
    from a b show c: "failedLoginAttempts ?u = failedLoginAttempts u + 1"
      by (simp add: login_failed)
    from a b show d: "lockedUntil ?u
        = (if failedLoginAttempts u + 1 \<ge> 5 then Some (now + 30 * 60 * 1000) else lockedUntil u)"
      by (simp add: login_failed)
    { assume e: "failedLoginAttempts u + 1 \<ge> 5 \<and> errors_empty req' \<and> now' < now + 30 * 60 * 1000"
      from a b have id: "uid ?u = uid u" by (auto simp: login_def Let_def split: option.splits)
      from d e have "lockedUntil ?u = Some (now + 30 * 60 * 1000)" by simp
      with e have "login (\<lambda>e. Some ?u) compare' jwt_sign' now' req' = locked_failure ?u req'"
        by (intro login_locked) auto
      with id show "login (\<lambda>e. Some ?u) compare' jwt_sign' now' req' = locked_failure u req'"
        by (simp add: locked_failure_def) } }
qed


theorem locked_account_rejected_without_password_check_witness:
  "errors_empty (sample_login ''wrong'') \<and>
   \<not> sample_compare (body_password (sample_login ''wrong'')) (password (sample_user 4 None)) \<and>
   lockedUntil (user_after (sample_user 4 None)
      (fst (login (\<lambda>e. Some (sample_user 4 None)) sample_compare sample_sign 1000
              (sample_login ''wrong'')))) = Some 1801000 \<and>
   login (\<lambda>e. Some (user_after (sample_user 4 None)
            (fst (login (\<lambda>e. Some (sample_user 4 None)) sample_compare sample_sign 1000
                    (sample_login ''wrong'')))))
      sample_compare sample_sign 1800999 (sample_login ''Correct-Horse-1!'')
   = locked_failure (sample_user 4 None) (sample_login ''Correct-Horse-1!'') \<and>
   lockedUntil (sample_user 5 (Some 1801000)) = Some 1801000 \<and>
   sample_compare (body_password (sample_login ''Correct-Horse-1!''))
      (password (sample_user 5 (Some 1801000))) \<and>
   login (\<lambda>e. Some (sample_user 5 (Some 1801000))) sample_compare sample_sign 1800999
      (sample_login ''Correct-Horse-1!'')
   = locked_failure (sample_user 5 (Some 1801000)) (sample_login ''Correct-Horse-1!'')"
proof -
  let ?u = "sample_user 4 None"
  let ?req = "sample_login ''wrong''"
  let ?good = "sample_login ''Correct-Horse-1!''"
  let ?v = "sample_user 5 (Some 1801000)"
  have a: "errors_empty ?req" by (simp add: sample_login_def)
  have b: "(\<lambda>e. Some ?u) (body_email ?req) = Some ?u" by simp
  have c: "(case lockedUntil ?u of None \<Rightarrow> True | Some t \<Rightarrow> t \<le> 1000) \<and>
     \<not> sample_compare (body_password ?req) (password ?u)"
    by (simp add: sample_user_def sample_login_def sample_compare_def)
  have d: "failedLoginAttempts ?u + 1 \<ge> 5 \<and> errors_empty ?good \<and>
     (1800999::int) < 1000 + 30 * 60 * 1000"
    by (simp add: sample_user_def sample_login_def)
  have a': "errors_empty ?good" by (simp add: sample_login_def)
  have b': "(\<lambda>e. Some ?v) (body_email ?good) = Some ?v" by simp
  have c': "lockedUntil ?v = Some 1801000 \<and> (1800999::int) < 1801000"
    by (simp add: sample_user_def)
  have e': "sample_compare (body_password ?good) (password ?v)"
    by (simp add: sample_user_def sample_login_def sample_compare_def)
  from locked_account_rejected_without_password_check
    [OF a b, of 0 1000 sample_compare sample_sign ?good 1800999 sample_compare sample_sign] c d a
  have first: "lockedUntil (user_after ?u
      (fst (login (\<lambda>e. Some ?u) sample_compare sample_sign 1000 ?req))) = Some 1801000 \<and>
    login (\<lambda>e. Some (user_after ?u
            (fst (login (\<lambda>e. Some ?u) sample_compare sample_sign 1000 ?req))))
      sample_compare sample_sign 1800999 ?good = locked_failure ?u ?good"
    by simp
  from locked_account_rejected_without_password_check
    [OF a' b', of 1801000 1800999 sample_compare sample_sign] c'
  have second: "login (\<lambda>e. Some ?v) sample_compare sample_sign 1800999 ?good
      = locked_failure ?v ?good"
    by blast
  from first second a c c' e' show ?thesis by simp
qed

text \<open>
  The scenario of the specification, run on the handler: five wrong passwords against a
  fresh account, then the correct password while the lockout lasts.
\<close>

lemma five_failures_then_correct_password: "map (map_sum id message) (snd (login_run sample_compare sample_sign (sample_user 0 None)
  [(1000, sample_login ''x''), (2000, sample_login ''x''), (3000, sample_login ''x''), (4000, sample_login ''x''), (5000, sample_login ''x''), (6000, sample_login ''Correct-Horse-1!'')]))
  = replicate 5 (Inl (AuthenticationError ''Invalid email or password'')) @ [Inl (AuthenticationError
         ''Account is temporarily locked due to multiple failed login attempts'')]"
  by (simp add: login_def sample_compare_def sample_user_def sample_login_def Let_def numeral_eq_Suc)





text \<open>
  In the handler of \<open>POST /change-password\<close> these two lines come after the test of line
  312, which is truthy for every new password: every request to the handler ends in an
  error and saves nothing, so the handler as written changes neither the credential nor
  the counter.
\<close>

lemma change_password_always_rejects:
  "(\<exists>e. snd (change_password compare hash min_length now req_user req cur new) = Inl e) \<and>
   user_after u (fst (change_password compare hash min_length now req_user req cur new)) = u"
  by (auto simp: change_password_def split: option.splits)

section \<open>Stale credentials\<close>

lemma stale_iff: "((of_int i :: rat) < of_int t / 1000) \<longleftrightarrow> i * 1000 < t"
proof -
  have "((of_int i :: rat) < of_int t / 1000) \<longleftrightarrow> (of_int i :: rat) * 1000 < of_int t"
    by (simp add: pos_less_divide_eq)
  also have "\<dots> \<longleftrightarrow> (of_int (i * 1000) :: rat) < of_int t" by simp
  also have "\<dots> \<longleftrightarrow> i * 1000 < t" by (rule of_int_less_iff)
  finally show ?thesis .
qed

text \<open>
  C6. A request carrying a token that verifies (so it is within its own horizon), whose
  actor is found, and whose issue time lies before the actor's last password change, is
  never passed on and no user is attached to it, whatever the audit store does. When the
  store accepts the entry, the answer is a 401 with one \<open>access_denied\<close> entry; for an
  active actor it is the answer of the stale-credential branch.
\<close>

theorem stale_token_rejected:
  assumes "bearer_token (hdr_authorization req) = Some tok" "jwt_verify tok = Inr decoded"
    "findByPk (tok_userId decoded) = Some u" "passwordChangedAt u = Some t"
    "tok_iat decoded * 1000 < t"
  shows "fst (snd (authenticateToken persist jwt_verify findByPk req)) \<noteq> Next \<and>
         snd (snd (authenticateToken persist jwt_verify findByPk req)) = None \<and>
         ((\<forall>d. persist d = None) \<longrightarrow>
            (\<exists>d m. authenticateToken persist jwt_verify findByPk req
                     = ([d], Responded 401 ''Access denied'' m, None) \<and>
                   eventType d = Access_denied \<and> status d = Failure \<and>
                   (isActive u \<longrightarrow> m = ''Password was changed, please login again'' \<and>
                      errorMessage d = Some (JStr ''Token issued before password change''))))"
  using assms
  by (auto simp: authenticateToken_def authenticateToken_try_def awaited_def Let_def stale_iff
      api_entry_def manual_entry_def split: option.splits)

theorem stale_token_rejected_witness:
  "bearer_token (hdr_authorization
      (with_bearer ''issued-at-0'' (mk_request ''GET'' ''/api/patients'' JUndefined (JObj []))))
     = Some ''issued-at-0'' \<and>
   sample_verify ''issued-at-0'' = Inr \<lparr>tok_userId = ''u-1'', tok_iat = 0\<rparr> \<and>
   passwordChangedAt (sample_user 0 None) = Some 1000 \<and>
   fst (snd (authenticateToken store_ok sample_verify (sample_directory (sample_user 0 None))
      (with_bearer ''issued-at-0'' (mk_request ''GET'' ''/api/patients'' JUndefined (JObj [])))))
     = Responded 401 ''Access denied'' ''Password was changed, please login again''"
proof -
  let ?req = "with_bearer ''issued-at-0'' (mk_request ''GET'' ''/api/patients'' JUndefined (JObj []))"
  let ?dec = "\<lparr>tok_userId = ''u-1'', tok_iat = 0\<rparr>"
  have a: "bearer_token (hdr_authorization ?req) = Some ''issued-at-0''"
    by (simp add: with_bearer_def mk_request_def bearer_token_def)
  have b: "sample_verify ''issued-at-0'' = Inr ?dec" by (simp add: sample_verify_def)
  have c: "sample_directory (sample_user 0 None) (tok_userId ?dec) = Some (sample_user 0 None)"
    by (simp add: sample_directory_def sample_user_def)
  have d: "passwordChangedAt (sample_user 0 None) = Some 1000" by (simp add: sample_user_def)
  have e: "tok_iat ?dec * 1000 < 1000" by simp
  have f: "\<forall>d. store_ok d = None" by (simp add: store_ok_def)
  have g: "isActive (sample_user 0 None)" by (simp add: sample_user_def)
  from stale_token_rejected [where jwt_verify = sample_verify
      and findByPk = "sample_directory (sample_user 0 None)" and persist = store_ok,
      OF a b c d e] f g
  have "fst (snd (authenticateToken store_ok sample_verify (sample_directory (sample_user 0 None))
      ?req)) = Responded 401 ''Access denied'' ''Password was changed, please login again''"
    by auto
  with a b d show ?thesis by simp
qed

section \<open>Denials of the authorization gates\<close>

text \<open>
  C8, as the code has it. Each gate that denies hands one \<open>access_denied\<close> entry with
  status \<open>failure\<close> to the store before it answers 403. The severity follows the gate: the
  training gate records \<open>high\<close>; the role gate and the data-access-level gate record
  \<open>medium\<close>. The role and level gates do not wait for the write; the training gate does,
  and answers 403 when the write succeeds.
\<close>

theorem gate_denial_severity:
  "(req_user = Some u \<and> role u \<notin> set roles \<longrightarrow>
      (\<exists>d. requireRole persist roles req_user req
            = ([d], floating persist d,
               Responded 403 ''Access denied'' ''Insufficient permissions'') \<and>
           eventType d = Access_denied \<and> status d = Failure \<and> severity d = Medium)) \<and>
   (req_user = Some u \<and> \<not> hipaaTrainingCompleted u \<longrightarrow>
      (\<exists>d r. requireHIPAATraining persist req_user req = ([d], [], r) \<and>
           eventType d = Access_denied \<and> status d = Failure \<and> severity d = High \<and>
           (persist d = None \<longrightarrow> r = Responded 403 ''Access denied''
              ''HIPAA training must be completed before accessing patient data''))) \<and>
   (req_user = Some u \<and> accessLevels (dataAccessLevel u) < accessLevels requiredLevel \<longrightarrow>
      (\<exists>d. requireDataAccessLevel persist requiredLevel req_user req
            = ([d], floating persist d,
               Responded 403 ''Access denied'' ''Insufficient data access level'') \<and>
           eventType d = Access_denied \<and> status d = Failure \<and> severity d = Medium))"
  by (auto simp: requireRole_def requireHIPAATraining_def requireDataAccessLevel_def Let_def
      api_entry_def manual_entry_def split: option.splits)

theorem gate_denial_severity_witness:
  "role (untrained (sample_user 0 None)) \<notin> set [''admin''] \<and>
   \<not> hipaaTrainingCompleted (untrained (sample_user 0 None)) \<and>
   accessLevels (dataAccessLevel (untrained (sample_user 0 None))) < accessLevels ''full'' \<and>
   map severity (fst (requireRole store_ok [''admin''] (Some (untrained (sample_user 0 None)))
      (mk_request ''GET'' ''/api/audit'' JUndefined (JObj [])))) = [Medium] \<and>
   map severity (fst (requireHIPAATraining store_ok (Some (untrained (sample_user 0 None)))
      (mk_request ''GET'' ''/api/audit'' JUndefined (JObj [])))) = [High] \<and>
   map severity (fst (requireDataAccessLevel store_ok ''full''
      (Some (untrained (sample_user 0 None)))
      (mk_request ''GET'' ''/api/audit'' JUndefined (JObj [])))) = [Medium]"
proof -
  let ?u = "untrained (sample_user 0 None)"
  let ?req = "mk_request ''GET'' ''/api/audit'' JUndefined (JObj [])"
  have a: "role ?u \<notin> set [''admin'']" by (simp add: sample_user_def untrained_def)
  have b: "accessLevels (dataAccessLevel ?u) < accessLevels ''full''"
    by (simp add: sample_user_def accessLevels_def untrained_def)
  have c: "\<not> hipaaTrainingCompleted ?u" by (simp add: untrained_def)
  from gate_denial_severity [of "Some ?u" ?u "[''admin'']" store_ok ?req "''full''"] a b c
  show ?thesis by auto
qed

text \<open>
  The claim as the specification states it fails on the role gate: a provider stopped by
  \<open>requireRole(['admin'])\<close> is answered 403 and the entry has severity \<open>medium\<close>, not
  \<open>high\<close>.
\<close>

theorem role_denial_is_medium:
  "map severity (fst (requireRole store_ok [''admin''] (Some (sample_user 0 None))
      (mk_request ''GET'' ''/api/audit'' JUndefined (JObj [])))) = [Medium] \<and>
   snd (snd (requireRole store_ok [''admin''] (Some (sample_user 0 None))
      (mk_request ''GET'' ''/api/audit'' JUndefined (JObj []))))
     = Responded 403 ''Access denied'' ''Insufficient permissions''"
  by (simp add: requireRole_def Let_def api_entry_def manual_entry_def sample_user_def)

section \<open>Failure of the audit store\<close>

text \<open>
  The request-level middleware and the manual entry point keep a failing store away from
  the request: what \<open>res.send\<close> delivers does not depend on the store, and
  \<open>createManualAuditEntry\<close> returns to its caller whatever the store does, so the answer of
  \<open>POST /login\<close> is computed without reading the store.
\<close>

lemma auditLogger_send_isolated:
  "delivered (auditLogger_send persist json_parse req res t0 t1 responseData) = responseData \<and>
   delivered_status (auditLogger_send persist json_parse req res t0 t1 responseData)
     = statusCode res"
  by (simp add: auditLogger_send_def Let_def)

lemma createManualAuditEntry_logs_rejection:
  "createManualAuditEntry persist d = [] \<longleftrightarrow> persist d = None"
  by (simp add: createManualAuditEntry_def split: option.splits)

text \<open>
  C2 does not hold for \<open>authenticateToken\<close>, which awaits \<open>Audit.createEntry\<close> directly
  inside its own \<open>try\<close>. A request without a token is answered 401 when the store works;
  when the store rejects the write, the rejection lands in the \<open>catch\<close> and the same
  request is answered 500. With an expired token the write of the \<open>catch\<close> block itself is
  rejected and nothing answers the request.
\<close>

theorem audit_failure_changes_authentication_response:
  "snd (authenticateToken store_ok sample_verify (sample_directory (sample_user 0 None))
          (mk_request ''GET'' ''/api/patients'' JUndefined (JObj [])))
     = (Responded 401 ''Access denied'' ''Authentication token is required'', None) \<and>
   snd (authenticateToken store_down sample_verify (sample_directory (sample_user 0 None))
          (mk_request ''GET'' ''/api/patients'' JUndefined (JObj [])))
     = (Responded 500 ''Internal server error'' ''Authentication failed'', None) \<and>
   snd (authenticateToken store_down sample_verify (sample_directory (sample_user 0 None))
          (with_bearer ''old'' (mk_request ''GET'' ''/api/patients'' JUndefined (JObj []))))
     = (Unhandled (JsError ''SequelizeConnectionError'' ''connection refused''), None)"
  by (simp add: authenticateToken_def authenticateToken_try_def awaited_def Let_def
      bearer_token_def mk_request_def with_bearer_def store_ok_def store_down_def
      sample_verify_def)

text \<open>
  The same for every request without a token and every rejection of the store that is not
  named like one of the two token errors: the answer is 500.
\<close>

lemma authenticateToken_store_failure_is_500:
  assumes "bearer_token (hdr_authorization req) = None" "\<forall>d. persist d = Some e"
    "err_name e \<noteq> ''TokenExpiredError''" "err_name e \<noteq> ''JsonWebTokenError''"
  shows "fst (snd (authenticateToken persist jwt_verify findByPk req))
     = Responded 500 ''Internal server error'' ''Authentication failed''"
  using assms by (simp add: authenticateToken_def authenticateToken_try_def awaited_def)

section \<open>The exported file\<close>

text \<open>The export has the header line first and then one line per entry, in order.\<close>

lemma csv_lines_count:
  "length (csv_lines date_string auditLogs) = length auditLogs + 1 \<and>
   hd (csv_lines date_string auditLogs) = join '','' (map (spec_quote) csvHeaders)"
  by (simp add: csv_lines_def csvHeaders_def csv_field_def spec_quote_def dquote_def)

text \<open>
  C5 does not hold: a field is put between double quotes as it is, and a double quote
  inside it is not doubled. The field \<open>a"b\<close> is written \<open>"a"b"\<close> where the documented
  quoting gives \<open>"a""b"\<close>. Two different entries, one with error message \<open>x","y\<close> and
  context \<open>z\<close>, the other with error message \<open>x\<close> and context \<open>y","z\<close>, are exported
  as the same file, so no reader of the file can recover the fields. The flag
  \<open>phiAccessed = false\<close> is written as the empty field, like an absent value.
\<close>

theorem csv_export_leaves_quotes_undoubled:
  "csv_field sample_date (CText [CHR ''a'', dquote, CHR ''b''])
     = [dquote, CHR ''a'', dquote, CHR ''b'', dquote] \<and>
   spec_quote [CHR ''a'', dquote, CHR ''b'']
     = [dquote, CHR ''a'', dquote, dquote, CHR ''b'', dquote] \<and>
   csvContent sample_date
     [sample_log (Some (''x'' @ [dquote] @ '','' @ [dquote] @ ''y'')) (Some ''z'')]
   = csvContent sample_date
     [sample_log (Some ''x'') (Some (''y'' @ [dquote] @ '','' @ [dquote] @ ''z''))] \<and>
   sample_log (Some (''x'' @ [dquote] @ '','' @ [dquote] @ ''y'')) (Some ''z'')
     \<noteq> sample_log (Some ''x'') (Some (''y'' @ [dquote] @ '','' @ [dquote] @ ''z'')) \<and>
   csv_field sample_date (CBool False) = csv_field sample_date CNull"
  by (simp add: csvContent_def csv_lines_def csvRow_def csv_field_def spec_quote_def
      sample_log_def opt_text_def dquote_def)

end
